theory Spec2Isabelle
  imports Complex_Main "HOL-Library.Sublist" "HOL-Library.Multiset"
begin

section \<open>JavaScript numbers\<close>

text \<open>
  The edge function \<^verbatim>\<open>supabase/functions/match-substitutes/index.ts\<close> computes with
  JavaScript numbers. A number is modelled as a real number, one of the two infinities, or
  NaN. The operators of this section stand for the arithmetic of the scores and of the
  travel estimates. They are exact on finite values: the rounding of IEEE doubles, overflow
  to infinity and the sign of zero are not modelled (a zero divisor counts as \<open>+0\<close>);
  NaN propagates, comparisons with NaN are false, a division by zero gives an infinity or
  NaN. The arithmetic inside \<^verbatim>\<open>haversineDistance\<close> is not taken to be exact: there the
  operations are the engine's own, see \<open>world\<close> below.
\<close>

datatype jsnum = Fin real | PInf | NInf | NaN

fun js_neg :: "jsnum \<Rightarrow> jsnum" where
  "js_neg (Fin x) = Fin (- x)"
| "js_neg PInf = NInf"
| "js_neg NInf = PInf"
| "js_neg NaN = NaN"

fun js_add :: "jsnum \<Rightarrow> jsnum \<Rightarrow> jsnum" where
  "js_add NaN b = NaN"
| "js_add a NaN = NaN"
| "js_add (Fin x) (Fin y) = Fin (x + y)"
| "js_add (Fin x) b = b"
| "js_add a (Fin y) = a"
| "js_add PInf PInf = PInf"
| "js_add NInf NInf = NInf"
| "js_add PInf NInf = NaN"
| "js_add NInf PInf = NaN"

definition js_sub :: "jsnum \<Rightarrow> jsnum \<Rightarrow> jsnum" where
  "js_sub a b = js_add a (js_neg b)"

text \<open>The sign of a number that is not NaN, and the infinity of a given sign
  (NaN for sign 0, as in \<open>Infinity * 0\<close>).\<close>

fun sign_of :: "jsnum \<Rightarrow> real" where
  "sign_of (Fin x) = sgn x"
| "sign_of PInf = 1"
| "sign_of NInf = - 1"
| "sign_of NaN = 0"

definition inf_of_sign :: "real \<Rightarrow> jsnum" where
  "inf_of_sign s = (if s > 0 then PInf else if s < 0 then NInf else NaN)"

fun js_mul :: "jsnum \<Rightarrow> jsnum \<Rightarrow> jsnum" where
  "js_mul NaN b = NaN"
| "js_mul a NaN = NaN"
| "js_mul (Fin x) (Fin y) = Fin (x * y)"
| "js_mul a b = inf_of_sign (sign_of a * sign_of b)"

fun js_div :: "jsnum \<Rightarrow> jsnum \<Rightarrow> jsnum" where
  "js_div NaN b = NaN"
| "js_div a NaN = NaN"
| "js_div (Fin x) (Fin y) = (if y = 0 then inf_of_sign (sgn x) else Fin (x / y))"
| "js_div (Fin x) b = Fin 0"
| "js_div a (Fin y) = inf_of_sign (sign_of a * (if y < 0 then - 1 else 1))"
| "js_div a b = NaN"

fun js_gt :: "jsnum \<Rightarrow> jsnum \<Rightarrow> bool" where
  "js_gt NaN b = False"
| "js_gt a NaN = False"
| "js_gt (Fin x) (Fin y) = (x > y)"
| "js_gt PInf b = (b \<noteq> PInf)"
| "js_gt a NInf = (a \<noteq> NInf)"
| "js_gt a b = False"

text \<open>\<^verbatim>\<open>Math.max\<close> and \<^verbatim>\<open>Math.min\<close> of two arguments: NaN when either is NaN.\<close>

fun js_max :: "jsnum \<Rightarrow> jsnum \<Rightarrow> jsnum" where
  "js_max NaN b = NaN"
| "js_max a NaN = NaN"
| "js_max a b = (if js_gt a b then a else b)"

fun js_min :: "jsnum \<Rightarrow> jsnum \<Rightarrow> jsnum" where
  "js_min NaN b = NaN"
| "js_min a NaN = NaN"
| "js_min a b = (if js_gt a b then b else a)"

section \<open>What the handler takes from outside the store\<close>

text \<open>
  The built-ins \<^verbatim>\<open>parseFloat\<close> and \<^verbatim>\<open>new Date(s).getTime()\<close>; the clock \<^verbatim>\<open>Date.now()\<close>
  as read in scenario \<open>k\<close> for the pool entry at index \<open>i\<close> (milliseconds); the count
  returned by the \<^verbatim>\<open>assignments\<close> query of that iteration for a substitute (\<open>None\<close> is a
  null count).

  The double arithmetic and the \<^verbatim>\<open>Math\<close> built-ins as \<^verbatim>\<open>haversineDistance\<close> uses them.
  The distance of two given points depends on the rounding of every step (the sine of the
  double nearest to \<open>\<pi>\<close> is not 0, a sum of products can round above 1, a product can
  underflow to 0), so these operations are not modelled: they are the engine's.

  The order in which \<^verbatim>\<open>Array.prototype.sort\<close> leaves an array when the comparator is not
  consistent, which ECMAScript leaves to the engine: \<open>sort_order\<close> gives, for the scores of
  the array, the positions of the entries in the order of the result.
\<close>

record world =
  parseFloat :: "string \<Rightarrow> jsnum"
  date_getTime :: "string \<Rightarrow> jsnum"
  date_now :: "nat \<Rightarrow> nat \<Rightarrow> real"
  count_recent :: "nat \<Rightarrow> nat \<Rightarrow> string \<Rightarrow> nat option"
  dbl_add :: "jsnum \<Rightarrow> jsnum \<Rightarrow> jsnum"
  dbl_sub :: "jsnum \<Rightarrow> jsnum \<Rightarrow> jsnum"
  dbl_mul :: "jsnum \<Rightarrow> jsnum \<Rightarrow> jsnum"
  dbl_div :: "jsnum \<Rightarrow> jsnum \<Rightarrow> jsnum"
  math_pi :: jsnum
  math_sin :: "jsnum \<Rightarrow> jsnum"
  math_cos :: "jsnum \<Rightarrow> jsnum"
  math_sqrt :: "jsnum \<Rightarrow> jsnum"
  math_atan2 :: "jsnum \<Rightarrow> jsnum \<Rightarrow> jsnum"
  sort_order :: "jsnum list \<Rightarrow> nat list"

section \<open>Great-circle distance and logistics\<close>

text \<open>\<^verbatim>\<open>haversineDistance(lat1, lon1, lat2, lon2)\<close>, lines 17 to 27.\<close>

definition haversineDistance :: "world \<Rightarrow> jsnum \<Rightarrow> jsnum \<Rightarrow> jsnum \<Rightarrow> jsnum \<Rightarrow> jsnum" where
  "haversineDistance w lat1 lon1 lat2 lon2 =
     (let R = Fin 6371;
          dLat = dbl_div w (dbl_mul w (dbl_sub w lat2 lat1) (math_pi w)) (Fin 180);
          dLon = dbl_div w (dbl_mul w (dbl_sub w lon2 lon1) (math_pi w)) (Fin 180);
          a = dbl_add w
                (dbl_mul w (math_sin w (dbl_div w dLat (Fin 2)))
                           (math_sin w (dbl_div w dLat (Fin 2))))
                (dbl_mul w
                  (dbl_mul w (math_cos w (dbl_div w (dbl_mul w lat1 (math_pi w)) (Fin 180)))
                             (math_cos w (dbl_div w (dbl_mul w lat2 (math_pi w)) (Fin 180))))
                  (dbl_mul w (math_sin w (dbl_div w dLon (Fin 2)))
                             (math_sin w (dbl_div w dLon (Fin 2)))));
          c = dbl_mul w (Fin 2)
                (math_atan2 w (math_sqrt w a) (math_sqrt w (dbl_sub w (Fin 1) a)))
      in dbl_mul w R c)"

text \<open>
  A JSON object with numeric members, as stored in \<^verbatim>\<open>settings.value_json\<close>. Reading a
  member that is absent gives \<^verbatim>\<open>undefined\<close>; every use the handler makes of such a value
  (a comparison, a product, a quotient, a sum with a number) coerces it to NaN.
\<close>

type_synonym jsobj = "(string \<times> jsnum) list"

definition member_of :: "jsobj \<Rightarrow> string \<Rightarrow> jsnum" where
  "member_of obj k = (case map_of obj k of Some v \<Rightarrow> v | None \<Rightarrow> NaN)"

record LogisticsResult =
  mode :: string
  eta_hours :: jsnum
  cost_est :: jsnum
  distance_km :: jsnum

text \<open>\<^verbatim>\<open>calculateLogistics(fromCoords, toCoords, rules)\<close>, lines 29 to 53. Coordinates
  are \<open>(longitude, latitude)\<close> pairs. The thresholds are compared with the distance as
  the engine computed it; the quotient and the cost are taken exactly.\<close>

definition calculateLogistics ::
  "world \<Rightarrow> jsnum \<times> jsnum \<Rightarrow> jsnum \<times> jsnum \<Rightarrow> jsobj \<Rightarrow> LogisticsResult" where
  "calculateLogistics w fromCoords toCoords rules =
     (let distance = haversineDistance w (snd fromCoords) (fst fromCoords)
                       (snd toCoords) (fst toCoords);
          (mode, speed_kmh, base_cost, cost_per_km) =
            (if js_gt distance (member_of rules ''air_threshold_km'')
             then (''air'', member_of rules ''air_speed_kmh'', member_of rules ''air_base_cost'',
                   member_of rules ''air_cost_per_km'')
             else if js_gt distance (member_of rules ''rail_threshold_km'')
             then (''rail'', member_of rules ''rail_speed_kmh'', member_of rules ''rail_base_cost'',
                   member_of rules ''rail_cost_per_km'')
             else (''car'', member_of rules ''car_speed_kmh'', member_of rules ''car_base_cost'',
                   member_of rules ''car_cost_per_km''));
          eta_hours = js_div distance speed_kmh;
          cost_est = js_add base_cost (js_mul distance cost_per_km)
      in \<lparr> mode = mode, eta_hours = eta_hours, cost_est = cost_est, distance_km = distance \<rparr>)"

section \<open>Rows of the store\<close>

text \<open>
  The rows the handler reads and writes. \<open>branches_coords\<close> is
  \<^verbatim>\<open>request.branches.coords\<close> of the joined branch row. The \<^verbatim>\<open>explanation\<close> string of
  \<^verbatim>\<open>details_json\<close> is a rendering (\<^verbatim>\<open>toFixed(1)\<close>) of the three sub-scores recorded
  beside it and is left out.
\<close>

record request_row =
  req_id :: string
  must_start_by :: string
  period_start :: string
  status :: string
  branches_coords :: string

record substitute_row =
  employee_id :: string
  base_coords :: string
  active :: bool

record details =
  speed_score :: jsnum
  logistics_score :: jsnum
  load_score :: jsnum
  details_eta_hours :: jsnum
  travel_cost :: jsnum
  travel_mode :: string
  details_distance_km :: jsnum
  recent_assignments :: nat
  weights :: jsobj

record candidate =
  request_id :: string
  substitute_id :: string
  score :: jsnum
  scenario_type :: string
  details_json :: details
  logistics_json :: LogisticsResult

record db =
  assignment_requests :: "request_row list"
  substitute_profiles :: "substitute_row list"
  settings :: "(string \<times> jsobj) list"
  assignment_candidates :: "candidate list"

text \<open>The outcome of each call to the store: \<open>True\<close> when the call returns an error.
  A call that fails changes nothing.\<close>

record faults =
  request_error :: bool
  substitutes_error :: bool
  settings_error :: bool
  delete_error :: bool
  insert_error :: bool
  update_error :: bool

datatype response = Preflight | Success nat "string list" | Failure

section \<open>Parsing a location\<close>

text \<open>
  \<^verbatim>\<open>s.match(/POINT\(([^ ]+) ([^ ]+)\)/)\<close>. At a position where \<^verbatim>\<open>POINT(\<close> starts, the
  first group is the whole run of non-space characters, which a space must follow; the
  second group is greedy and backtracks to the last closing parenthesis of the next run
  that leaves it non-empty. The search takes the leftmost position that matches.
\<close>

definition last_close :: "string \<Rightarrow> nat option" where
  "last_close run =
     (let js = filter (\<lambda>j. run ! j = CHR '')'') [1..<length run]
      in if js = [] then None else Some (last js))"

definition match_here :: "string \<Rightarrow> (string \<times> string) option" where
  "match_here s =
     (if take 6 s = ''POINT('' then
        (let rest = drop 6 s;
             g1 = takeWhile (\<lambda>c. c \<noteq> CHR '' '') rest;
             after1 = dropWhile (\<lambda>c. c \<noteq> CHR '' '') rest
         in if g1 = [] \<or> after1 = [] then None
            else (let run = takeWhile (\<lambda>c. c \<noteq> CHR '' '') (tl after1)
                  in case last_close run of
                       None \<Rightarrow> None
                     | Some j \<Rightarrow> Some (g1, take j run)))
      else None)"

fun coords_match :: "string \<Rightarrow> (string \<times> string) option" where
  "coords_match [] = None"
| "coords_match (c # cs) =
     (case match_here (c # cs) of Some r \<Rightarrow> Some r | None \<Rightarrow> coords_match cs)"

text \<open>Lines 96 to 99 and 115 to 118: the parsed pair, or \<open>[0, 0]\<close> when the text does
  not match.\<close>

definition parse_point :: "world \<Rightarrow> string \<Rightarrow> jsnum \<times> jsnum" where
  "parse_point w s =
     (case coords_match s of
        Some (a, b) \<Rightarrow> (parseFloat w a, parseFloat w b)
      | None \<Rightarrow> (Fin 0, Fin 0))"

section \<open>Configuration\<close>

text \<open>Lines 84 to 93. The error of the settings query is not read: a failed query
  leaves \<^verbatim>\<open>settings\<close> null and every key falls back. A \<^verbatim>\<open>value_json\<close> is a JSON
  object, which is truthy even when empty, so a key falls back only when its row is
  missing.\<close>

record config =
  logisticsRules :: jsobj
  defaultWeights :: jsobj
  fastWeights :: jsobj
  nearWeights :: jsobj

definition value_or :: "(string \<times> jsobj) list option \<Rightarrow> string \<Rightarrow> jsobj \<Rightarrow> jsobj" where
  "value_or rows k dflt =
     (case rows of
        None \<Rightarrow> dflt
      | Some rs \<Rightarrow> (case find (\<lambda>s. fst s = k) rs of Some s \<Rightarrow> snd s | None \<Rightarrow> dflt))"

definition load_config :: "(string \<times> jsobj) list option \<Rightarrow> config" where
  "load_config rows =
     \<lparr> logisticsRules = value_or rows ''logistics_rules'' [],
       defaultWeights = value_or rows ''scoring_weights''
         [(''speed'', Fin 0.4), (''logistics'', Fin 0.35), (''load'', Fin 0.25)],
       fastWeights = value_or rows ''scoring_weights_fast''
         [(''speed'', Fin 0.5), (''logistics'', Fin 0.35), (''load'', Fin 0.15)],
       nearWeights = value_or rows ''scoring_weights_near''
         [(''speed'', Fin 0.25), (''logistics'', Fin 0.6), (''load'', Fin 0.15)] \<rparr>"

section \<open>Scoring\<close>

text \<open>Lines 123 to 142, the three sub-scores.\<close>

definition speedScore :: "jsnum \<Rightarrow> real \<Rightarrow> jsnum" where
  "speedScore mustStartBy now =
     (let hoursUntilStart = js_div (js_sub mustStartBy (Fin now)) (Fin (1000 * 60 * 60))
      in js_max (Fin 0)
           (js_min (Fin 100) (js_mul (js_div hoursUntilStart (Fin (24 * 7))) (Fin 100))))"

definition logisticsScore :: "LogisticsResult \<Rightarrow> jsnum" where
  "logisticsScore logistics =
     js_max (Fin 0)
       (js_sub (js_sub (Fin 100) (js_mul (js_div (eta_hours logistics) (Fin 24)) (Fin 50)))
               (js_mul (js_div (cost_est logistics) (Fin 10000)) (Fin 50)))"

definition or_zero :: "nat option \<Rightarrow> nat" where
  "or_zero n = (case n of Some k \<Rightarrow> k | None \<Rightarrow> 0)"

definition loadScore :: "nat option \<Rightarrow> jsnum" where
  "loadScore recentAssignments =
     js_max (Fin 0) (js_sub (Fin 100) (js_mul (Fin (real (or_zero recentAssignments))) (Fin 25)))"

text \<open>The body of the inner loop, lines 114 to 168: the candidate of one pool entry
  in one scenario. \<open>k\<close> and \<open>i\<close> are the positions of the scenario and of the entry.\<close>

definition candidate_for ::
  "world \<Rightarrow> string \<Rightarrow> request_row \<Rightarrow> jsobj \<Rightarrow> jsnum \<times> jsnum \<Rightarrow> nat \<Rightarrow> string \<times> jsobj
     \<Rightarrow> nat \<Rightarrow> substitute_row \<Rightarrow> candidate" where
  "candidate_for w rid request rules branchCoords k scenario i substitute =
     (let subCoords = parse_point w (base_coords substitute);
          logistics = calculateLogistics w subCoords branchCoords rules;
          speed = speedScore (date_getTime w (must_start_by request)) (date_now w k i);
          lscore = logisticsScore logistics;
          recentAssignments = count_recent w k i (employee_id substitute);
          load = loadScore recentAssignments;
          sc = js_add
                 (js_add (js_mul speed (member_of (snd scenario) ''speed''))
                         (js_mul lscore (member_of (snd scenario) ''logistics'')))
                 (js_mul load (member_of (snd scenario) ''load''))
      in \<lparr> request_id = rid,
           substitute_id = employee_id substitute,
           score = sc,
           scenario_type = fst scenario,
           details_json =
             \<lparr> speed_score = speed, logistics_score = lscore, load_score = load,
               details_eta_hours = eta_hours logistics, travel_cost = cost_est logistics,
               travel_mode = mode logistics, details_distance_km = distance_km logistics,
               recent_assignments = or_zero recentAssignments, weights = snd scenario \<rparr>,
           logistics_json = logistics \<rparr>)"

text \<open>The array \<^verbatim>\<open>candidates\<close> when the inner loop ends: one entry per pool entry, in
  pool order.\<close>

definition scenario_candidates ::
  "world \<Rightarrow> string \<Rightarrow> request_row \<Rightarrow> jsobj \<Rightarrow> jsnum \<times> jsnum \<Rightarrow> substitute_row list
     \<Rightarrow> nat \<Rightarrow> string \<times> jsobj \<Rightarrow> candidate list" where
  "scenario_candidates w rid request rules branchCoords substitutes k scenario =
     map (\<lambda>(i, s). candidate_for w rid request rules branchCoords k scenario i s)
         (enumerate 0 substitutes)"

section \<open>Ranking\<close>

text \<open>
  \<^verbatim>\<open>Array.prototype.sort\<close> with a consistent comparator: the sort is stable, and \<open>b\<close>
  goes before \<open>a\<close> exactly when the comparator of \<open>(a, b)\<close> is greater than zero. Every
  conforming sort then returns the list built here by insertion.
\<close>

fun insert_by :: "('a \<Rightarrow> 'a \<Rightarrow> jsnum) \<Rightarrow> 'a \<Rightarrow> 'a list \<Rightarrow> 'a list" where
  "insert_by cmp x [] = [x]"
| "insert_by cmp x (y # ys) =
     (if js_gt (cmp x y) (Fin 0) then y # insert_by cmp x ys else x # y # ys)"

definition sort_by :: "('a \<Rightarrow> 'a \<Rightarrow> jsnum) \<Rightarrow> 'a list \<Rightarrow> 'a list" where
  "sort_by cmp xs = foldr (insert_by cmp) xs []"

text \<open>The entries of \<open>xs\<close> at the positions \<open>p\<close>, when \<open>p\<close> lists every position once
  (a sort returns the entries it was given, in some order).\<close>

definition reorder :: "nat list \<Rightarrow> 'a list \<Rightarrow> 'a list" where
  "reorder p xs = (if sort p = [0..<length xs] then map (\<lambda>i. xs ! i) p else xs)"

definition is_finite :: "jsnum \<Rightarrow> bool" where
  "is_finite x = (case x of Fin r \<Rightarrow> True | _ \<Rightarrow> False)"

text \<open>
  Lines 171 to 173: \<^verbatim>\<open>candidates.sort((a, b) => b.score - a.score)\<close> and
  \<^verbatim>\<open>candidates.slice(0, 5)\<close>. The comparator is consistent when every score is a finite
  number: it then never returns NaN. With a score that is NaN or infinite it is not, and
  the order of the result is the engine's.
\<close>

definition by_score :: "candidate \<Rightarrow> candidate \<Rightarrow> jsnum" where
  "by_score a b = js_sub (score b) (score a)"

definition array_sort :: "world \<Rightarrow> candidate list \<Rightarrow> candidate list" where
  "array_sort w candidates =
     (if list_all (\<lambda>c. is_finite (score c)) candidates then sort_by by_score candidates
      else reorder (sort_order w (map score candidates)) candidates)"

definition top5 :: "world \<Rightarrow> candidate list \<Rightarrow> candidate list" where
  "top5 w candidates = take 5 (array_sort w candidates)"

text \<open>Lines 101 to 174: the three scenarios in their fixed order, and \<^verbatim>\<open>allCandidates\<close>.\<close>

definition scenarios_of :: "config \<Rightarrow> (string \<times> jsobj) list" where
  "scenarios_of cfg =
     [(''default'', defaultWeights cfg), (''fast'', fastWeights cfg), (''near'', nearWeights cfg)]"

definition all_candidates ::
  "world \<Rightarrow> string \<Rightarrow> request_row \<Rightarrow> config \<Rightarrow> substitute_row list \<Rightarrow> candidate list" where
  "all_candidates w rid request cfg substitutes =
     (let branchCoords = parse_point w (branches_coords request)
      in concat (map (\<lambda>(k, scenario).
                    top5 w (scenario_candidates w rid request (logisticsRules cfg) branchCoords
                              substitutes k scenario))
                  (enumerate 0 (scenarios_of cfg))))"

section \<open>The handler\<close>

text \<open>\<^verbatim>\<open>.single()\<close>: the row when exactly one matches, an error otherwise.\<close>

definition single :: "'a list \<Rightarrow> 'a option" where
  "single rows = (case rows of [r] \<Rightarrow> Some r | _ \<Rightarrow> None)"

text \<open>
  Lines 55 to 212. The result is the store after the call and the response. Only the
  errors of the request query, of the pool query and of the insert are thrown; those of
  the settings query, of the delete and of the status update are not read. The request
  body is taken to hold the request id, and the two location columns (declared
  \<^verbatim>\<open>NOT NULL\<close>) to arrive as text.
\<close>

definition serve :: "world \<Rightarrow> faults \<Rightarrow> db \<Rightarrow> string \<Rightarrow> string \<Rightarrow> db \<times> response" where
  "serve w f d method rid =
     (if method = ''OPTIONS'' then (d, Preflight)
      else
        (case (if request_error f then None
               else single (filter (\<lambda>r. req_id r = rid) (assignment_requests d))) of
           None \<Rightarrow> (d, Failure)
         | Some request \<Rightarrow>
             if substitutes_error f then (d, Failure)
             else
               (let substitutes = filter active (substitute_profiles d);
                    cfg = load_config (if settings_error f then None else Some (settings d));
                    allCandidates = all_candidates w rid request cfg substitutes;
                    d1 = (if delete_error f then d
                          else d \<lparr> assignment_candidates :=
                                   filter (\<lambda>c. request_id c \<noteq> rid) (assignment_candidates d) \<rparr>)
                in if allCandidates \<noteq> [] \<and> insert_error f then (d1, Failure)
                   else
                     (let d2 = (if allCandidates \<noteq> []
                                then d1 \<lparr> assignment_candidates :=
                                          assignment_candidates d1 @ allCandidates \<rparr>
                                else d1);
                          d3 = (if update_error f then d2
                                else d2 \<lparr> assignment_requests :=
                                         map (\<lambda>r. if req_id r = rid
                                                   then r \<lparr> status := ''matching'' \<rparr> else r)
                                             (assignment_requests d2) \<rparr>)
                      in (d3, Success (length allCandidates) (map fst (scenarios_of cfg)))))))"

section \<open>Vocabulary of the properties\<close>



text \<open>JavaScript's \<open>a >= b\<close>: false when either side is NaN.\<close>

definition js_ge :: "jsnum \<Rightarrow> jsnum \<Rightarrow> bool" where
  "js_ge a b = (a \<noteq> NaN \<and> b \<noteq> NaN \<and> \<not> js_gt b a)"

text \<open>What a recorded candidate says about the substitute, the weight set apart.\<close>

definition breakdown :: "candidate \<Rightarrow> string \<times> details \<times> LogisticsResult" where
  "breakdown c = (substitute_id c, (details_json c) \<lparr> weights := [] \<rparr>, logistics_json c)"

text \<open>
  The fallback values the specification documents for \<open>logistics_rules\<close> (section 6);
  the seed row of the \<^verbatim>\<open>settings\<close> table holds the same values.
\<close>

definition documented_logistics_rules :: jsobj where
  "documented_logistics_rules =
     [(''air_threshold_km'', Fin 1500), (''rail_threshold_km'', Fin 200),
      (''air_speed_kmh'', Fin 700), (''rail_speed_kmh'', Fin 80), (''car_speed_kmh'', Fin 60),
      (''air_base_cost'', Fin 5000), (''rail_base_cost'', Fin 1500), (''car_base_cost'', Fin 500),
      (''air_cost_per_km'', Fin 3), (''rail_cost_per_km'', Fin 1), (''car_cost_per_km'', Fin 0.5)]"

definition documented_weights :: jsobj where
  "documented_weights = [(''speed'', Fin 0.4), (''logistics'', Fin 0.35), (''load'', Fin 0.25)]"

section \<open>A concrete store\<close>

text \<open>The arithmetic of the example: exact, with the mathematical sine, cosine, square
  root and two-argument arctangent.\<close>

fun js_sin :: "jsnum \<Rightarrow> jsnum" where
  "js_sin (Fin x) = Fin (sin x)"
| "js_sin a = NaN"

fun js_cos :: "jsnum \<Rightarrow> jsnum" where
  "js_cos (Fin x) = Fin (cos x)"
| "js_cos a = NaN"

fun js_sqrt :: "jsnum \<Rightarrow> jsnum" where
  "js_sqrt (Fin x) = (if x < 0 then NaN else Fin (sqrt x))"
| "js_sqrt PInf = PInf"
| "js_sqrt a = NaN"

text \<open>The angle of the point \<open>(x, y)\<close>, in \<open>(-\<pi>, \<pi>]\<close>.\<close>

definition atan2 :: "real \<Rightarrow> real \<Rightarrow> real" where
  "atan2 y x =
     (if x > 0 then arctan (y / x)
      else if x < 0 then (if y \<ge> 0 then arctan (y / x) + pi else arctan (y / x) - pi)
      else if y > 0 then pi / 2
      else if y < 0 then - (pi / 2)
      else 0)"

fun js_atan2 :: "jsnum \<Rightarrow> jsnum \<Rightarrow> jsnum" where
  "js_atan2 NaN x = NaN"
| "js_atan2 y NaN = NaN"
| "js_atan2 (Fin y) (Fin x) = Fin (atan2 y x)"
| "js_atan2 (Fin y) PInf = Fin 0"
| "js_atan2 (Fin y) NInf = Fin (if y \<ge> 0 then pi else - pi)"
| "js_atan2 PInf (Fin x) = Fin (pi / 2)"
| "js_atan2 NInf (Fin x) = Fin (- (pi / 2))"
| "js_atan2 PInf PInf = Fin (pi / 4)"
| "js_atan2 PInf NInf = Fin (3 * pi / 4)"
| "js_atan2 NInf PInf = Fin (- (pi / 4))"
| "js_atan2 NInf NInf = Fin (- (3 * pi / 4))"


text \<open>
  One open request at a branch at \<open>POINT(0 0)\<close>, due 84 hours after the clock's time; three
  active substitutes, the third with a location that is not a \<open>POINT\<close> text, and an
  inactive one; one request more; candidates of an earlier run for both requests. The
  engine of the example leaves an array with an inconsistent comparator as it is.
\<close>

definition example_world :: world where
  "example_world =
     \<lparr> parseFloat = (\<lambda>s. if s = ''0'' then Fin 0 else if s = ''180'' then Fin 180 else NaN),
       date_getTime = (\<lambda>s. if s = ''2025-10-04T12:00:00Z'' then Fin 1759579200000 else NaN),
       date_now = (\<lambda>k i. 1759276800000),
       count_recent =
         (\<lambda>k i e. if e = ''e1'' then Some 2 else if e = ''e2'' then Some 0 else None),
       dbl_add = js_add, dbl_sub = js_sub, dbl_mul = js_mul, dbl_div = js_div,
       math_pi = Fin pi, math_sin = js_sin, math_cos = js_cos, math_sqrt = js_sqrt,
       math_atan2 = js_atan2,
       sort_order = (\<lambda>scores. [0..<length scores]) \<rparr>"

definition example_request :: request_row where
  "example_request =
     \<lparr> req_id = ''r1'', must_start_by = ''2025-10-04T12:00:00Z'',
       period_start = ''2025-10-05T00:00:00Z'', status = ''open'',
       branches_coords = ''POINT(0 0)'' \<rparr>"

definition other_request :: request_row where
  "other_request =
     \<lparr> req_id = ''r2'', must_start_by = ''2025-10-04T12:00:00Z'',
       period_start = ''2025-10-05T00:00:00Z'', status = ''open'',
       branches_coords = ''POINT(0 0)'' \<rparr>"

definition example_pool :: "substitute_row list" where
  "example_pool =
     [\<lparr> employee_id = ''e1'', base_coords = ''POINT(0 0)'', active = True \<rparr>,
      \<lparr> employee_id = ''e2'', base_coords = ''POINT(0 0)'', active = True \<rparr>,
      \<lparr> employee_id = ''e3'', base_coords = ''0101000020E6100000'', active = True \<rparr>]"

definition stale_candidate :: "string \<Rightarrow> string \<Rightarrow> candidate" where
  "stale_candidate rid sid =
     \<lparr> request_id = rid, substitute_id = sid, score = Fin 10, scenario_type = ''default'',
       details_json =
         \<lparr> speed_score = Fin 10, logistics_score = Fin 10, load_score = Fin 10,
           details_eta_hours = Fin 0, travel_cost = Fin 500, travel_mode = ''car'',
           details_distance_km = Fin 0, recent_assignments = 0, weights = documented_weights \<rparr>,
       logistics_json =
         \<lparr> mode = ''car'', eta_hours = Fin 0, cost_est = Fin 500, distance_km = Fin 0 \<rparr> \<rparr>"

definition example_db :: db where
  "example_db =
     \<lparr> assignment_requests = [example_request, other_request],
       substitute_profiles =
         example_pool @ [\<lparr> employee_id = ''e4'', base_coords = ''POINT(0 0)'', active = False \<rparr>],
       settings = [(''logistics_rules'', documented_logistics_rules)],
       assignment_candidates = [stale_candidate ''r1'' ''e9'', stale_candidate ''r2'' ''e1''] \<rparr>"

definition no_faults :: faults where
  "no_faults =
     \<lparr> request_error = False, substitutes_error = False, settings_error = False,
       delete_error = False, insert_error = False, update_error = False \<rparr>"


section \<open>Properties\<close>

text \<open>
  C3. The travel mode is chosen by the fixed threshold priority with a strict
  greater-than: air when the distance exceeds \<open>air_threshold_km\<close>, else rail when it
  exceeds \<open>rail_threshold_km\<close>, else car. A distance equal to \<open>rail_threshold_km\<close>
  that is not beyond the air threshold resolves to car.
\<close>

theorem mode_selection:
  "mode (calculateLogistics w fromCoords toCoords rules) =
     (let d = haversineDistance w (snd fromCoords) (fst fromCoords) (snd toCoords) (fst toCoords)
      in if js_gt d (member_of rules ''air_threshold_km'') then ''air''
         else if js_gt d (member_of rules ''rail_threshold_km'') then ''rail''
         else ''car'')
   \<and> (haversineDistance w (snd fromCoords) (fst fromCoords) (snd toCoords) (fst toCoords)
         = member_of rules ''rail_threshold_km''
       \<and> \<not> js_gt (member_of rules ''rail_threshold_km'') (member_of rules ''air_threshold_km'')
       \<longrightarrow> mode (calculateLogistics w fromCoords toCoords rules) = ''car'')"
proof -
  have irrefl: "\<not> js_gt x x" for x
    by (cases x) simp_all
  show ?thesis
    by (simp add: calculateLogistics_def Let_def irrefl)
qed

theorem mode_selection_witness:
  "haversineDistance example_world (Fin 0) (Fin 0) (Fin 0) (Fin 180) = Fin (6371 * pi)
   \<and> mode (calculateLogistics example_world (Fin 0, Fin 0) (Fin 180, Fin 0)
        [(''air_threshold_km'', Fin 30000), (''rail_threshold_km'', Fin (6371 * pi))]) = ''car''
   \<and> haversineDistance example_world (Fin 0) (Fin 0) (Fin 0) (Fin 0) = Fin 0
   \<and> mode (calculateLogistics example_world (Fin 0, Fin 0) (Fin 0, Fin 0)
        [(''air_threshold_km'', Fin 1500), (''rail_threshold_km'', Fin 0)]) = ''car''"
proof -
  have d: "haversineDistance example_world (Fin 0) (Fin 0) (Fin 0) (Fin 180) = Fin (6371 * pi)"
    by (simp add: haversineDistance_def Let_def example_world_def js_sub_def atan2_def)
  have d0: "haversineDistance example_world (Fin 0) (Fin 0) (Fin 0) (Fin 0) = Fin 0"
    by (simp add: haversineDistance_def Let_def example_world_def js_sub_def atan2_def)
  have "pi < 4" using pi_less_4 by simp
  then have le: "\<not> 6371 * pi > (30000::real)" by simp
  have far: "mode (calculateLogistics example_world (Fin 0, Fin 0) (Fin 180, Fin 0)
        [(''air_threshold_km'', Fin 30000), (''rail_threshold_km'', Fin (6371 * pi))]) = ''car''"
    using mode_selection [of example_world "(Fin 0, Fin 0)" "(Fin 180, Fin 0)"
        "[(''air_threshold_km'', Fin 30000), (''rail_threshold_km'', Fin (6371 * pi))]"] d le
    by (simp add: member_of_def)
  have near: "mode (calculateLogistics example_world (Fin 0, Fin 0) (Fin 0, Fin 0)
        [(''air_threshold_km'', Fin 1500), (''rail_threshold_km'', Fin 0)]) = ''car''"
    using mode_selection [of example_world "(Fin 0, Fin 0)" "(Fin 0, Fin 0)"
        "[(''air_threshold_km'', Fin 1500), (''rail_threshold_km'', Fin 0)]"] d0
    by (simp add: member_of_def)
  show ?thesis
    using d d0 far near by blast
qed

subsection \<open>Evaluating the concrete store\<close>

lemma coords_match_point: "coords_match ''POINT(0 0)'' = Some (''0'', ''0'')"
  by code_simp

lemma coords_match_hex: "coords_match ''0101000020E6100000'' = None"
  by code_simp

lemma parse_point_point: "parse_point example_world ''POINT(0 0)'' = (Fin 0, Fin 0)"
  by (simp add: parse_point_def coords_match_point example_world_def del: coords_match.simps)

lemma parse_point_hex: "parse_point example_world ''0101000020E6100000'' = (Fin 0, Fin 0)"
  by (simp add: parse_point_def coords_match_hex del: coords_match.simps)

lemma example_world_sel:
  "date_getTime example_world ''2025-10-04T12:00:00Z'' = Fin 1759579200000"
  "date_now example_world k i = 1759276800000"
  "count_recent example_world k i ''e1'' = Some 2"
  "count_recent example_world k i ''e2'' = Some 0"
  "count_recent example_world k i ''e3'' = None"
  by (simp_all add: example_world_def)

lemma haversine_same:
  "haversineDistance example_world (Fin la) (Fin lo) (Fin la) (Fin lo) = Fin 0"
  by (simp add: haversineDistance_def Let_def example_world_def js_sub_def atan2_def)

lemma logistics_at_branch:
  "calculateLogistics example_world (Fin 0, Fin 0) (Fin 0, Fin 0) documented_logistics_rules
     = \<lparr> mode = ''car'', eta_hours = Fin 0, cost_est = Fin 500, distance_km = Fin 0 \<rparr>"
  by (simp add: calculateLogistics_def haversine_same documented_logistics_rules_def
      member_of_def Let_def)

lemma example_scores:
  "map (\<lambda>c. (substitute_id c, score c))
     (scenario_candidates example_world ''r1'' example_request documented_logistics_rules
        (Fin 0, Fin 0) example_pool 0 (''default'', documented_weights))
   = [(''e1'', Fin 66.625), (''e2'', Fin 79.125), (''e3'', Fin 79.125)]"
  by (simp add: scenario_candidates_def example_pool_def enumerate_eq_zip candidate_for_def
      parse_point_point parse_point_hex logistics_at_branch Let_def speedScore_def
      logisticsScore_def loadScore_def or_zero_def example_world_sel example_request_def
      documented_weights_def member_of_def js_sub_def upt_rec)

subsection \<open>Score components\<close>

lemma nan_right [simp]:
  "js_gt a NaN = False" "js_div a NaN = NaN" "js_mul a NaN = NaN" "js_add a NaN = NaN"
  "js_max a NaN = NaN" "js_min a NaN = NaN"
  by (cases a; simp)+

lemma js_sub_nan [simp]: "js_sub a NaN = NaN" "js_sub NaN a = NaN"
  by (simp_all add: js_sub_def)

lemma logistics_without_rules:
  "calculateLogistics w a b []
     = \<lparr> mode = ''car'', eta_hours = NaN, cost_est = NaN,
         distance_km = haversineDistance w (snd a) (fst a) (snd b) (fst b) \<rparr>"
  by (simp add: calculateLogistics_def member_of_def Let_def)

lemma logisticsScore_nan:
  "logisticsScore \<lparr> mode = m, eta_hours = NaN, cost_est = NaN, distance_km = x \<rparr> = NaN"
  by (simp add: logisticsScore_def)

lemma score_without_rules: "score (candidate_for w rid request [] bc k sc i s) = NaN"
  by (simp add: candidate_for_def Let_def logistics_without_rules logisticsScore_nan)







subsection \<open>Ranking\<close>

lemma set_insert_by: "set (insert_by cmp x ys) = insert x (set ys)"
  by (induction ys) auto

lemma set_sort_by: "set (sort_by cmp xs) = set xs"
  by (induction xs) (auto simp: sort_by_def set_insert_by)

lemma length_insert_by: "length (insert_by cmp x ys) = Suc (length ys)"
  by (induction ys) auto

lemma length_sort_by: "length (sort_by cmp xs) = length xs"
  by (induction xs) (auto simp: sort_by_def length_insert_by)

lemma gt_sub_zero: "a \<noteq> NaN \<Longrightarrow> b \<noteq> NaN \<Longrightarrow> js_gt (js_sub b a) (Fin 0) = js_gt b a"
  by (cases a; cases b) (simp_all add: js_sub_def)

lemma gt_sub_neq: "js_gt (js_sub b a) (Fin 0) \<Longrightarrow> a \<noteq> b"
  by (cases a; cases b) (auto simp: js_sub_def)

lemma js_gt_asym: "js_gt a b \<Longrightarrow> \<not> js_gt b a"
  by (cases a; cases b) auto

lemma js_ge_trans: "js_ge a b \<Longrightarrow> js_ge b c \<Longrightarrow> js_ge a c"
  unfolding js_ge_def by (cases a; cases b; cases c) auto

lemma sorted_insert_by:
  assumes "sorted_wrt (\<lambda>a b. js_ge (score a) (score b)) ys"
    and "score x \<noteq> NaN" and "\<forall>y\<in>set ys. score y \<noteq> NaN"
  shows "sorted_wrt (\<lambda>a b. js_ge (score a) (score b)) (insert_by by_score x ys)"
  using assms
proof (induction ys)
  case Nil
  then show ?case by simp
next
  case (Cons y ys)
  show ?case
  proof (cases "js_gt (by_score x y) (Fin 0)")
    case True
    then have "js_gt (score y) (score x)"
      using Cons.prems by (simp add: by_score_def gt_sub_zero)
    then have "js_ge (score y) (score x)"
      using Cons.prems by (auto simp: js_ge_def dest: js_gt_asym)
    with True Cons show ?thesis
      by (auto simp: set_insert_by)
  next
    case False
    then have "\<not> js_gt (score y) (score x)"
      using Cons.prems by (simp add: by_score_def gt_sub_zero)
    then have xy: "js_ge (score x) (score y)"
      using Cons.prems by (simp add: js_ge_def)
    have "js_ge (score x) (score z)" if "z \<in> set ys" for z
      using xy Cons.prems(1) that js_ge_trans by auto
    with False xy Cons.prems show ?thesis by auto
  qed
qed

lemma sorted_sort_by:
  "\<forall>y\<in>set xs. score y \<noteq> NaN \<Longrightarrow>
   sorted_wrt (\<lambda>a b. js_ge (score a) (score b)) (sort_by by_score xs)"
proof (induction xs)
  case Nil
  then show ?case by (simp add: sort_by_def)
next
  case (Cons x xs)
  then have "sorted_wrt (\<lambda>a b. js_ge (score a) (score b)) (sort_by by_score xs)"
    by simp
  then have "sorted_wrt (\<lambda>a b. js_ge (score a) (score b))
               (insert_by by_score x (sort_by by_score xs))"
    using Cons.prems by (intro sorted_insert_by) (auto simp: set_sort_by)
  then show ?case by (simp add: sort_by_def)
qed

text \<open>The sort never moves an entry past one of the same score.\<close>

lemma filter_insert_by:
  "filter (\<lambda>c. score c = v) (insert_by by_score x ys) = filter (\<lambda>c. score c = v) (x # ys)"
proof (induction ys)
  case Nil
  then show ?case by simp
next
  case (Cons y ys)
  show ?case
  proof (cases "js_gt (by_score x y) (Fin 0)")
    case True
    then have "score x \<noteq> score y"
      by (auto simp: by_score_def dest: gt_sub_neq)
    with True Cons show ?thesis by auto
  next
    case False
    then show ?thesis by simp
  qed
qed

lemma filter_sort_by:
  "filter (\<lambda>c. score c = v) (sort_by by_score xs) = filter (\<lambda>c. score c = v) xs"
proof (induction xs)
  case Nil
  then show ?case by (simp add: sort_by_def)
next
  case (Cons x xs)
  have "filter (\<lambda>c. score c = v) (sort_by by_score (x # xs))
      = filter (\<lambda>c. score c = v) (x # sort_by by_score xs)"
    by (simp add: sort_by_def filter_insert_by del: filter.simps)
  then show ?case using Cons by simp
qed

lemma filter_take_prefix: "prefix (filter P (take n xs)) (filter P xs)"
  by (metis append_take_drop_id filter_append prefixI)

lemma mset_insert_by: "mset (insert_by cmp x ys) = add_mset x (mset ys)"
  by (induction ys) auto

lemma mset_sort_by: "mset (sort_by cmp xs) = mset xs"
  by (induction xs) (auto simp: sort_by_def mset_insert_by)

lemma mset_reorder: "mset (reorder p xs) = mset xs"
proof (cases "sort p = [0..<length xs]")
  case True
  then have "mset p = mset [0..<length xs]"
    by (metis mset_sort)
  then have "image_mset (\<lambda>i. xs ! i) (mset p) = image_mset (\<lambda>i. xs ! i) (mset [0..<length xs])"
    by (rule arg_cong)
  then have "mset (map (\<lambda>i. xs ! i) p) = mset (map (\<lambda>i. xs ! i) [0..<length xs])"
    by (simp only: mset_map)
  then show ?thesis
    using True by (simp add: reorder_def map_nth)
next
  case False
  then show ?thesis by (simp add: reorder_def)
qed

lemma mset_array_sort: "mset (array_sort w cs) = mset cs"
  by (simp add: array_sort_def mset_sort_by mset_reorder)

lemma set_array_sort: "set (array_sort w cs) = set cs"
  using mset_array_sort by (metis set_mset_mset)

lemma length_array_sort: "length (array_sort w cs) = length cs"
  using mset_array_sort by (metis size_mset)

lemma array_sort_finite:
  "\<forall>c\<in>set cs. is_finite (score c) \<Longrightarrow> array_sort w cs = sort_by by_score cs"
  by (simp add: array_sort_def list_all_iff)

lemma finite_not_nan: "is_finite x \<Longrightarrow> x \<noteq> NaN"
  by (auto simp: is_finite_def)

lemma set_top5: "set (top5 w cs) \<subseteq> set cs"
  using set_take_subset [of 5 "array_sort w cs"] by (simp add: top5_def set_array_sort)

lemma length_top5: "length (top5 w cs) = min 5 (length cs)"
  by (simp add: top5_def length_array_sort min.commute)

lemma mset_top5: "mset (top5 w cs) \<subseteq># mset cs"
proof -
  have "mset (take 5 (array_sort w cs)) \<subseteq># mset (array_sort w cs)"
    by (metis append_take_drop_id mset_append mset_subset_eq_add_left)
  then show ?thesis
    by (simp add: top5_def mset_array_sort)
qed

lemma map_enumerate_snd: "map (\<lambda>(i, s). f s) (enumerate n xs) = map f xs"
proof -
  have "map (\<lambda>(i, s). f s) (enumerate n xs) = map (f \<circ> snd) (enumerate n xs)"
    by (simp add: split_def comp_def)
  also have "\<dots> = map f xs"
    by (simp only: map_map [symmetric] map_snd_enumerate)
  finally show ?thesis .
qed

lemma substitute_id_candidates:
  "map substitute_id (scenario_candidates w rid request rules bc substitutes k scenario)
     = map employee_id substitutes"
proof -
  have "map substitute_id (scenario_candidates w rid request rules bc substitutes k scenario)
      = map (\<lambda>(i, s). employee_id s) (enumerate 0 substitutes)"
    by (simp add: scenario_candidates_def candidate_for_def Let_def split_def comp_def)
  then show ?thesis by (simp only: map_enumerate_snd)
qed

lemma candidate_tags:
  assumes "c \<in> set (scenario_candidates w rid request rules bc substitutes k scenario)"
  shows "scenario_type c = fst scenario \<and> request_id c = rid"
  using assms by (auto simp: scenario_candidates_def candidate_for_def Let_def)

lemma top5_tags:
  assumes "c \<in> set (top5 w (scenario_candidates w rid request rules bc substitutes k scenario))"
  shows "scenario_type c = fst scenario \<and> request_id c = rid"
  using assms set_top5 candidate_tags by blast

lemma all_candidates_blocks:
  "all_candidates w rid request cfg substitutes =
     top5 w (scenario_candidates w rid request (logisticsRules cfg)
             (parse_point w (branches_coords request)) substitutes 0
             (''default'', defaultWeights cfg))
     @ top5 w (scenario_candidates w rid request (logisticsRules cfg)
             (parse_point w (branches_coords request)) substitutes 1
             (''fast'', fastWeights cfg))
     @ top5 w (scenario_candidates w rid request (logisticsRules cfg)
             (parse_point w (branches_coords request)) substitutes 2
             (''near'', nearWeights cfg))"
  by (simp add: all_candidates_def scenarios_of_def Let_def enumerate_simps numeral_2_eq_2)

lemma all_candidates_request: "c \<in> set (all_candidates w rid request cfg substitutes) \<Longrightarrow> request_id c = rid"
  by (auto simp: all_candidates_blocks dest: top5_tags)

lemma filter_all_candidates:
  assumes "(k, scenario) \<in> set (enumerate 0 (scenarios_of cfg))"
  shows "filter (\<lambda>c. scenario_type c = fst scenario) (all_candidates w rid request cfg substitutes)
       = top5 w (scenario_candidates w rid request (logisticsRules cfg)
                 (parse_point w (branches_coords request)) substitutes k scenario)"
proof -
  have all: "filter (\<lambda>c. scenario_type c = t) (top5 w (scenario_candidates w rid request rules bc substitutes j sc))
      = (if fst sc = t then top5 w (scenario_candidates w rid request rules bc substitutes j sc) else [])"
    for t rules bc j sc
    by (auto simp: filter_empty_conv filter_id_conv dest: top5_tags)
  from assms consider "k = 0" "scenario = (''default'', defaultWeights cfg)"
    | "k = 1" "scenario = (''fast'', fastWeights cfg)"
    | "k = 2" "scenario = (''near'', nearWeights cfg)"
    by (auto simp: scenarios_of_def enumerate_simps numeral_2_eq_2)
  then show ?thesis
    by cases (simp_all add: all_candidates_blocks all)
qed

lemma example_config:
  "load_config (Some (settings example_db))
     = \<lparr> logisticsRules = documented_logistics_rules,
         defaultWeights = documented_weights,
         fastWeights = [(''speed'', Fin 0.5), (''logistics'', Fin 0.35), (''load'', Fin 0.15)],
         nearWeights = [(''speed'', Fin 0.25), (''logistics'', Fin 0.6), (''load'', Fin 0.15)] \<rparr>"
  by (simp add: load_config_def value_or_def example_db_def documented_weights_def)

lemma example_ranked:
  "map substitute_id
     (top5 example_world (scenario_candidates example_world ''r1'' example_request documented_logistics_rules
        (Fin 0, Fin 0) example_pool 0 (''default'', documented_weights)))
   = [''e2'', ''e3'', ''e1'']"
  by (simp add: top5_def array_sort_def is_finite_def sort_by_def by_score_def
      scenario_candidates_def example_pool_def enumerate_eq_zip candidate_for_def
      parse_point_point parse_point_hex logistics_at_branch Let_def speedScore_def
      logisticsScore_def loadScore_def or_zero_def example_world_sel example_request_def
      documented_weights_def member_of_def js_sub_def upt_rec)

subsection \<open>The handler\<close>

lemma single_map: "single (map g xs) = map_option g (single xs)"
  by (cases xs rule: list.exhaust [case_names Nil Cons])
     (auto simp: single_def split: list.splits)

lemma all_candidates_status:
  "all_candidates w rid (request \<lparr> status := s \<rparr>) cfg substitutes
     = all_candidates w rid request cfg substitutes"
  by (simp add: all_candidates_def scenario_candidates_def candidate_for_def Let_def)

lemma filter_other_new:
  assumes "\<forall>c\<in>set new. request_id c = rid"
  shows "filter (\<lambda>c. request_id c \<noteq> rid) (filter (\<lambda>c. request_id c \<noteq> rid) old @ new)
       = filter (\<lambda>c. request_id c \<noteq> rid) old"
  using assms by (simp add: filter_empty_conv)

lemma filter_same_new:
  assumes "\<forall>c\<in>set new. request_id c = rid"
  shows "filter (\<lambda>c. request_id c = rid) (filter (\<lambda>c. request_id c \<noteq> rid) old @ new) = new"
  using assms by (simp add: filter_empty_conv filter_id_conv)

lemma filter_mark:
  "filter (\<lambda>r. req_id r = rid)
     (map (\<lambda>r. if req_id r = rid then r \<lparr> status := s \<rparr> else r) rs)
   = map (\<lambda>r. r \<lparr> status := s \<rparr>) (filter (\<lambda>r. req_id r = rid) rs)"
  by (induction rs) auto

lemma mark_twice:
  "map (\<lambda>r. if req_id r = rid then r \<lparr> status := s \<rparr> else r)
     (map (\<lambda>r. if req_id r = rid then r \<lparr> status := s \<rparr> else r) rs)
   = map (\<lambda>r. if req_id r = rid then r \<lparr> status := s \<rparr> else r) rs"
  by (induction rs) auto

lemma scenario_names: "map fst (scenarios_of cfg) = [''default'', ''fast'', ''near'']"
  by (simp add: scenarios_of_def)

text \<open>The handler once the request and the pool are read, in one equation.\<close>

lemma serve_run:
  assumes "method \<noteq> ''OPTIONS''" "\<not> request_error f" "\<not> substitutes_error f"
    and "single (filter (\<lambda>r. req_id r = rid) (assignment_requests d)) = Some request"
    and "new = all_candidates w rid request
                 (load_config (if settings_error f then None else Some (settings d)))
                 (filter active (substitute_profiles d))"
    and "d1 = (if delete_error f then d
               else d \<lparr> assignment_candidates :=
                        filter (\<lambda>c. request_id c \<noteq> rid) (assignment_candidates d) \<rparr>)"
  shows "serve w f d method rid =
     (if new \<noteq> [] \<and> insert_error f then (d1, Failure)
      else ((if update_error f then (\<lambda>x. x)
             else assignment_requests_update
                    (map (\<lambda>r. if req_id r = rid then r \<lparr> status := ''matching'' \<rparr> else r)))
              (if new \<noteq> [] then d1 \<lparr> assignment_candidates := assignment_candidates d1 @ new \<rparr>
               else d1),
            Success (length new) [''default'', ''fast'', ''near'']))"
  using assms by (simp add: serve_def Let_def scenario_names)

lemma serve_abort:
  assumes "request_error f
         \<or> single (filter (\<lambda>r. req_id r = rid) (assignment_requests d)) = None
         \<or> substitutes_error f"
    and "method \<noteq> ''OPTIONS''"
  shows "serve w f d method rid = (d, Failure)"
  using assms by (auto simp: serve_def split: option.splits)

lemma example_found:
  "single (filter (\<lambda>r. req_id r = ''r1'') (assignment_requests example_db)) = Some example_request"
  by (simp add: example_db_def example_request_def other_request_def single_def)

lemma example_active: "filter active (substitute_profiles example_db) = example_pool"
  by (simp add: example_db_def example_pool_def)

lemma example_branch:
  "parse_point example_world (branches_coords example_request) = (Fin 0, Fin 0)"
  by (simp add: example_request_def parse_point_point del: coords_match.simps)

lemma length_top5_example:
  "length (top5 example_world (scenario_candidates example_world ''r1'' example_request
      documented_logistics_rules (Fin 0, Fin 0) example_pool k scenario)) = 3"
  by (simp add: length_top5 scenario_candidates_def example_pool_def)

lemma example_new_length:
  "length (all_candidates example_world ''r1'' example_request
     (load_config (Some (settings example_db))) example_pool) = 9"
  by (simp add: all_candidates_blocks example_config example_branch length_top5_example)

text \<open>
  C1, as the claim states it, fails: the replace step is a delete followed by an insert,
  with no transaction around them. When the insert fails, the run answers with an error
  and the candidate of the earlier run for the request is gone.
\<close>

theorem failed_insert_loses_candidates:
  "snd (serve example_world (no_faults \<lparr> insert_error := True \<rparr>) example_db ''POST'' ''r1'')
     = Failure
   \<and> assignment_candidates example_db = [stale_candidate ''r1'' ''e9'', stale_candidate ''r2'' ''e1'']
   \<and> assignment_candidates
       (fst (serve example_world (no_faults \<lparr> insert_error := True \<rparr>) example_db ''POST'' ''r1''))
     = [stale_candidate ''r2'' ''e1'']"
proof -
  let ?f = "no_faults \<lparr> insert_error := True \<rparr>"
  let ?new = "all_candidates example_world ''r1'' example_request
                (load_config (Some (settings example_db))) example_pool"
  have ne: "?new \<noteq> []"
    using example_new_length by auto
  have "serve example_world ?f example_db ''POST'' ''r1''
      = (example_db \<lparr> assignment_candidates :=
           filter (\<lambda>c. request_id c \<noteq> ''r1'') (assignment_candidates example_db) \<rparr>, Failure)"
    using ne
    by (subst serve_run [where request = example_request and new = ?new, OF _ _ _ example_found _ refl])
       (simp_all add: no_faults_def example_active)
  then show ?thesis
    by (simp add: example_db_def stale_candidate_def)
qed

text \<open>
  C1, amended. A run that fails before the replace step (the request query fails or finds
  no single row, or the pool query fails) leaves the store as it was. A run in which the
  delete and the insert are carried out succeeds, and then the candidates of the request
  are exactly the newly computed ones of the three scenarios, the candidates of other
  requests being untouched. The replace step is not atomic: when the insert fails after
  the delete, the run fails and the store has lost the earlier candidates of the request
  and is otherwise unchanged.
\<close>

theorem replace_step:
  assumes "method \<noteq> ''OPTIONS''"
    and "new = all_candidates w rid request
                 (load_config (if settings_error f then None else Some (settings d)))
                 (filter active (substitute_profiles d))"
    and "kept = filter (\<lambda>c. request_id c \<noteq> rid) (assignment_candidates d)"
  shows "(request_error f
            \<or> single (filter (\<lambda>r. req_id r = rid) (assignment_requests d)) = None
            \<or> substitutes_error f
          \<longrightarrow> serve w f d method rid = (d, Failure))
       \<and> (\<not> request_error f \<and> \<not> substitutes_error f
            \<and> single (filter (\<lambda>r. req_id r = rid) (assignment_requests d)) = Some request
            \<and> \<not> delete_error f \<and> \<not> insert_error f
          \<longrightarrow> snd (serve w f d method rid) = Success (length new) [''default'', ''fast'', ''near'']
            \<and> filter (\<lambda>c. request_id c = rid)
                 (assignment_candidates (fst (serve w f d method rid))) = new
            \<and> filter (\<lambda>c. request_id c \<noteq> rid)
                 (assignment_candidates (fst (serve w f d method rid))) = kept)
       \<and> (\<not> request_error f \<and> \<not> substitutes_error f
            \<and> single (filter (\<lambda>r. req_id r = rid) (assignment_requests d)) = Some request
            \<and> \<not> delete_error f \<and> insert_error f \<and> new \<noteq> []
          \<longrightarrow> serve w f d method rid = (d \<lparr> assignment_candidates := kept \<rparr>, Failure))"
proof -
  have tags: "\<forall>c\<in>set new. request_id c = rid"
    using assms(2) all_candidates_request by blast
  have abort: "serve w f d method rid = (d, Failure)"
    if "request_error f
        \<or> single (filter (\<lambda>r. req_id r = rid) (assignment_requests d)) = None
        \<or> substitutes_error f"
    using serve_abort [OF that assms(1)] .
  have run: "serve w f d method rid =
     (if new \<noteq> [] \<and> insert_error f then (d \<lparr> assignment_candidates := kept \<rparr>, Failure)
      else ((if update_error f then (\<lambda>x. x)
             else assignment_requests_update
                    (map (\<lambda>r. if req_id r = rid then r \<lparr> status := ''matching'' \<rparr> else r)))
              (if new \<noteq> [] then d \<lparr> assignment_candidates := kept @ new \<rparr>
               else d \<lparr> assignment_candidates := kept \<rparr>),
            Success (length new) [''default'', ''fast'', ''near'']))"
    if "\<not> request_error f" "\<not> substitutes_error f"
      "single (filter (\<lambda>r. req_id r = rid) (assignment_requests d)) = Some request"
      "\<not> delete_error f"
    using that(4) assms(3)
    by (subst serve_run [where request = request and new = new,
          OF assms(1) that(1,2,3) assms(2) refl])
       simp_all
  have ok: "snd (serve w f d method rid) = Success (length new) [''default'', ''fast'', ''near'']
      \<and> filter (\<lambda>c. request_id c = rid)
           (assignment_candidates (fst (serve w f d method rid))) = new
      \<and> filter (\<lambda>c. request_id c \<noteq> rid)
           (assignment_candidates (fst (serve w f d method rid))) = kept"
    if "\<not> request_error f" "\<not> substitutes_error f"
      "single (filter (\<lambda>r. req_id r = rid) (assignment_requests d)) = Some request"
      "\<not> delete_error f" "\<not> insert_error f"
  proof (cases "new = []")
    case True
    then show ?thesis
      using run [OF that(1-4)] that(5) assms(3) by (simp add: filter_empty_conv)
  next
    case False
    then show ?thesis
      using run [OF that(1-4)] that(5) assms(3)
        filter_same_new [OF tags] filter_other_new [OF tags]
      by simp
  qed
  have lost: "serve w f d method rid = (d \<lparr> assignment_candidates := kept \<rparr>, Failure)"
    if "\<not> request_error f" "\<not> substitutes_error f"
      "single (filter (\<lambda>r. req_id r = rid) (assignment_requests d)) = Some request"
      "\<not> delete_error f" "insert_error f" "new \<noteq> []"
    using run [OF that(1-4)] that(5,6) by simp
  show ?thesis
    using abort ok lost by blast
qed

theorem replace_step_witness:
  "snd (serve example_world no_faults example_db ''POST'' ''r1'')
     = Success 9 [''default'', ''fast'', ''near'']
   \<and> length (filter (\<lambda>c. request_id c = ''r1'')
       (assignment_candidates (fst (serve example_world no_faults example_db ''POST'' ''r1'')))) = 9
   \<and> filter (\<lambda>c. request_id c \<noteq> ''r1'')
       (assignment_candidates (fst (serve example_world no_faults example_db ''POST'' ''r1'')))
     = [stale_candidate ''r2'' ''e1'']
   \<and> serve example_world no_faults example_db ''POST'' ''r0'' = (example_db, Failure)
   \<and> serve example_world (no_faults \<lparr> insert_error := True \<rparr>) example_db ''POST'' ''r1''
     = (example_db \<lparr> assignment_candidates := [stale_candidate ''r2'' ''e1''] \<rparr>, Failure)"
proof -
  let ?new = "all_candidates example_world ''r1'' example_request
                (load_config (Some (settings example_db))) example_pool"
  let ?bad = "no_faults \<lparr> insert_error := True \<rparr>"
  have m: "''POST'' \<noteq> ''OPTIONS''" by simp
  have new: "?new = all_candidates example_world ''r1'' example_request
                (load_config (if settings_error no_faults then None else Some (settings example_db)))
                (filter active (substitute_profiles example_db))"
    by (simp add: no_faults_def example_active)
  have new': "?new = all_candidates example_world ''r1'' example_request
                (load_config (if settings_error ?bad then None else Some (settings example_db)))
                (filter active (substitute_profiles example_db))"
    by (simp add: no_faults_def example_active)
  have none: "single (filter (\<lambda>r. req_id r = ''r0'') (assignment_requests example_db)) = None"
    by (simp add: example_db_def example_request_def other_request_def single_def)
  have old: "[stale_candidate ''r2'' ''e1'']
      = filter (\<lambda>c. request_id c \<noteq> ''r1'') (assignment_candidates example_db)"
    by (simp add: example_db_def stale_candidate_def)
  have nf: "\<not> request_error no_faults" "\<not> substitutes_error no_faults"
    "\<not> delete_error no_faults" "\<not> insert_error no_faults"
    "\<not> request_error ?bad" "\<not> substitutes_error ?bad"
    "\<not> delete_error ?bad" "insert_error ?bad"
    by (simp_all add: no_faults_def)
  have ne: "?new \<noteq> []"
    using example_new_length by auto
  show ?thesis
    using replace_step [OF m new old] nf example_found example_new_length
      replace_step [where rid = "''r0''" and w = example_world and f = no_faults
        and d = example_db, OF m refl refl] none
      replace_step [OF m new' old] ne
    by simp
qed

text \<open>
  C7. A run on an existing request with no active substitute succeeds: the answer counts 0
  candidates and lists the three scenarios, and the status of the request is
  \<open>matching\<close> afterwards (the status update carried out).
\<close>

theorem empty_pool_succeeds:
  assumes "method \<noteq> ''OPTIONS''"
    and "\<not> request_error f" and "\<not> substitutes_error f" and "\<not> update_error f"
    and "single (filter (\<lambda>r. req_id r = rid) (assignment_requests d)) = Some request"
    and "filter active (substitute_profiles d) = []"
  shows "snd (serve w f d method rid) = Success 0 [''default'', ''fast'', ''near'']
       \<and> map status (filter (\<lambda>r. req_id r = rid)
            (assignment_requests (fst (serve w f d method rid)))) = [''matching'']
       \<and> filter (\<lambda>c. request_id c = rid)
            (assignment_candidates (fst (serve w f d method rid)))
          = (if delete_error f then filter (\<lambda>c. request_id c = rid) (assignment_candidates d)
             else [])"
proof -
  let ?cfg = "load_config (if settings_error f then None else Some (settings d))"
  have new: "all_candidates w rid request ?cfg (filter active (substitute_profiles d)) = []"
    by (simp add: assms(6) all_candidates_blocks top5_def array_sort_def sort_by_def
        scenario_candidates_def)
  have one: "filter (\<lambda>r. req_id r = rid) (assignment_requests d) = [request]"
    using assms(5) by (auto simp: single_def split: list.splits)
  have run: "serve w f d method rid =
      (assignment_requests_update
         (map (\<lambda>r. if req_id r = rid then r \<lparr> status := ''matching'' \<rparr> else r))
         (if delete_error f then d
          else d \<lparr> assignment_candidates :=
                   filter (\<lambda>c. request_id c \<noteq> rid) (assignment_candidates d) \<rparr>),
       Success 0 [''default'', ''fast'', ''near''])"
    using assms(4)
    by (subst serve_run [OF assms(1,2,3,5) refl refl]) (simp add: new)
  show ?thesis
    by (simp add: run filter_mark one filter_empty_conv)
qed

theorem empty_pool_succeeds_witness:
  "serve example_world no_faults (example_db \<lparr> substitute_profiles := [] \<rparr>) ''POST'' ''r1''
     = (example_db \<lparr> substitute_profiles := [],
          assignment_requests := [example_request \<lparr> status := ''matching'' \<rparr>, other_request],
          assignment_candidates := [stale_candidate ''r2'' ''e1''] \<rparr>,
        Success 0 [''default'', ''fast'', ''near''])
   \<and> map status (filter (\<lambda>r. req_id r = ''r1'')
        (assignment_requests
          (fst (serve example_world no_faults (example_db \<lparr> substitute_profiles := [] \<rparr>)
                  ''POST'' ''r1'')))) = [''matching'']"
proof -
  let ?d = "example_db \<lparr> substitute_profiles := [] \<rparr>"
  have m: "''POST'' \<noteq> ''OPTIONS''" by simp
  have nf: "\<not> request_error no_faults" "\<not> substitutes_error no_faults"
    "\<not> update_error no_faults"
    by (simp_all add: no_faults_def)
  have found: "single (filter (\<lambda>r. req_id r = ''r1'') (assignment_requests ?d))
      = Some example_request"
    using example_found by simp
  have pool: "filter active (substitute_profiles ?d) = []" by simp
  have run: "serve example_world no_faults ?d ''POST'' ''r1''
     = (example_db \<lparr> substitute_profiles := [],
          assignment_requests := [example_request \<lparr> status := ''matching'' \<rparr>, other_request],
          assignment_candidates := [stale_candidate ''r2'' ''e1''] \<rparr>,
        Success 0 [''default'', ''fast'', ''near''])"
    by (subst serve_run [OF m nf(1,2) found refl refl])
       (simp add: no_faults_def all_candidates_blocks top5_def array_sort_def sort_by_def
          scenario_candidates_def example_db_def example_request_def other_request_def
          stale_candidate_def)
  show ?thesis
    using empty_pool_succeeds [OF m nf found pool, of example_world] run by simp
qed

text \<open>
  C8. A second run, made right after the first with the same clock readings, the same
  workload counts, the same outcomes of the store calls, and a store changed only by the
  first run, gives the same answer and leaves the store as the first run left it: the same
  candidates with the same scores in the same order. (The delete of the replace step is
  taken to be carried out.)
\<close>

theorem rerun_identical:
  assumes "\<not> delete_error f"
  shows "serve w f (fst (serve w f d method rid)) method rid = serve w f d method rid"
proof (cases "method = ''OPTIONS''")
  case True
  then show ?thesis by (simp add: serve_def)
next
  case m: False
  show ?thesis
  proof (cases "request_error f
      \<or> single (filter (\<lambda>r. req_id r = rid) (assignment_requests d)) = None
      \<or> substitutes_error f")
    case True
    then show ?thesis
      using serve_abort [OF True m] by simp
  next
    case False
    then obtain request where ok: "\<not> request_error f" "\<not> substitutes_error f"
      and found: "single (filter (\<lambda>r. req_id r = rid) (assignment_requests d)) = Some request"
      by auto
    let ?cfg = "load_config (if settings_error f then None else Some (settings d))"
    let ?new = "all_candidates w rid request ?cfg (filter active (substitute_profiles d))"
    let ?kept = "filter (\<lambda>c. request_id c \<noteq> rid) (assignment_candidates d)"
    let ?mark = "map (\<lambda>r. if req_id r = rid then r \<lparr> status := ''matching'' \<rparr> else r)"
    have tags: "\<forall>c\<in>set ?new. request_id c = rid"
      using all_candidates_request by blast
    have first: "serve w f d method rid =
       (if ?new \<noteq> [] \<and> insert_error f then (d \<lparr> assignment_candidates := ?kept \<rparr>, Failure)
        else ((if update_error f then (\<lambda>x. x) else assignment_requests_update ?mark)
                (if ?new \<noteq> [] then d \<lparr> assignment_candidates := ?kept @ ?new \<rparr>
                 else d \<lparr> assignment_candidates := ?kept \<rparr>),
              Success (length ?new) [''default'', ''fast'', ''near'']))"
      using assms by (subst serve_run [OF m ok found refl refl]) simp
    show ?thesis
    proof (cases "?new \<noteq> [] \<and> insert_error f")
      case True
      let ?d' = "d \<lparr> assignment_candidates := ?kept \<rparr>"
      have d': "fst (serve w f d method rid) = ?d'"
        using first True by simp
      have found': "single (filter (\<lambda>r. req_id r = rid) (assignment_requests ?d')) = Some request"
        using found by simp
      have "serve w f ?d' method rid = (?d', Failure)"
        using assms True by (subst serve_run [OF m ok found' refl refl]) (auto split: if_splits)
      then show ?thesis
        using first True d' by simp
    next
      case False
      let ?cands = "if ?new \<noteq> [] then ?kept @ ?new else ?kept"
      let ?d' = "(if update_error f then (\<lambda>x. x) else assignment_requests_update ?mark)
                   (d \<lparr> assignment_candidates := ?cands \<rparr>)"
      let ?request' = "if update_error f then request else request \<lparr> status := ''matching'' \<rparr>"
      have res: "serve w f d method rid
          = (?d', Success (length ?new) [''default'', ''fast'', ''near''])"
        using first False by auto
      have found': "single (filter (\<lambda>r. req_id r = rid) (assignment_requests ?d')) = Some ?request'"
        using found by (simp add: filter_mark single_map)
      have same: "settings ?d' = settings d" "substitute_profiles ?d' = substitute_profiles d"
        by simp_all
      have new': "all_candidates w rid ?request'
            (load_config (if settings_error f then None else Some (settings ?d')))
            (filter active (substitute_profiles ?d')) = ?new"
        by (simp add: all_candidates_status)
      have kept': "filter (\<lambda>c. request_id c \<noteq> rid) (assignment_candidates ?d') = ?kept"
        using filter_other_new [OF tags, of "assignment_candidates d"] by simp
      have none: "filter (\<lambda>c. request_id c \<noteq> rid) ?new = []"
        using tags by (simp add: filter_empty_conv)
      have idem: "(\<lambda>r. if req_id r = rid then r \<lparr> status := ''matching'' \<rparr> else r)
            \<circ> (\<lambda>r. if req_id r = rid then r \<lparr> status := ''matching'' \<rparr> else r)
          = (\<lambda>r. if req_id r = rid then r \<lparr> status := ''matching'' \<rparr> else r)"
        by (auto simp: fun_eq_iff)
      have "serve w f ?d' method rid
          = (?d', Success (length ?new) [''default'', ''fast'', ''near''])"
        using assms False
        by (subst serve_run [OF m ok found' new' [symmetric] refl])
           (auto simp: none idem)
      then show ?thesis
        using res by simp
    qed
  qed
qed

theorem rerun_identical_witness:
  "\<not> delete_error no_faults
   \<and> serve example_world no_faults
        (fst (serve example_world no_faults example_db ''POST'' ''r1'')) ''POST'' ''r1''
     = serve example_world no_faults example_db ''POST'' ''r1''
   \<and> snd (serve example_world no_faults example_db ''POST'' ''r1'')
     = Success 9 [''default'', ''fast'', ''near'']"
proof -
  have nf: "\<not> delete_error no_faults"
    by (simp add: no_faults_def)
  have "snd (serve example_world no_faults example_db ''POST'' ''r1'')
      = Success 9 [''default'', ''fast'', ''near'']"
    by (subst serve_run [where request = example_request, OF _ _ _ example_found refl refl])
       (simp_all add: no_faults_def example_active example_new_length)
  then show ?thesis
    using rerun_identical [OF nf, of example_world example_db "''POST''" "''r1''"] nf by simp
qed

subsection \<open>The breakdown of a substitute\<close>

lemma breakdown_candidate_for:
  assumes "date_now w k i = date_now w k' i"
    and "count_recent w k i (employee_id s) = count_recent w k' i (employee_id s)"
  shows "breakdown (candidate_for w rid request rules bc k sc i s)
       = breakdown (candidate_for w rid request rules bc k' sc' i s)"
  using assms by (simp add: breakdown_def candidate_for_def Let_def)

lemma breakdown_candidates:
  assumes "\<forall>k k' i. date_now w k i = date_now w k' i"
    and "\<forall>k k' i e. count_recent w k i e = count_recent w k' i e"
  shows "map breakdown (scenario_candidates w rid request rules bc substitutes k sc)
       = map breakdown (scenario_candidates w rid request rules bc substitutes k' sc')"
proof -
  have "breakdown (candidate_for w rid request rules bc k sc i s)
      = breakdown (candidate_for w rid request rules bc k' sc' i s)" for i s
    using assms by (intro breakdown_candidate_for) auto
  then show ?thesis
    by (simp add: scenario_candidates_def split_def)
qed

lemma fst_breakdown: "fst (breakdown c) = substitute_id c"
  by (simp add: breakdown_def)

lemma in_all_candidates:
  assumes "c \<in> set (all_candidates w rid request cfg substitutes)"
  shows "\<exists>k sc. c \<in> set (scenario_candidates w rid request (logisticsRules cfg)
                    (parse_point w (branches_coords request)) substitutes k sc)"
  using assms set_top5 by (fastforce simp: all_candidates_blocks)

text \<open>
  C10. When the clock readings and the workload counts of a run do not depend on the
  scenario, the candidates of any two scenarios agree, entry of the pool by entry, on the
  substitute, on every field of the detail breakdown but the weight set (the three
  sub-scores, travel mode, distance, travel time, cost, recent-assignment count) and on
  the derived logistics; what differs is the weight set and the final score. So two
  recorded candidates of one substitute carry the same breakdown, the pool holding one
  entry per employee.
\<close>

theorem breakdown_across_scenarios:
  assumes "\<forall>k k' i. date_now w k i = date_now w k' i"
    and "\<forall>k k' i e. count_recent w k i e = count_recent w k' i e"
  shows "map breakdown (scenario_candidates w rid request rules bc substitutes k sc)
           = map breakdown (scenario_candidates w rid request rules bc substitutes k' sc')
       \<and> (distinct (map employee_id substitutes)
            \<and> c \<in> set (all_candidates w rid request cfg substitutes)
            \<and> c' \<in> set (all_candidates w rid request cfg substitutes)
            \<and> substitute_id c = substitute_id c'
          \<longrightarrow> breakdown c = breakdown c')"
proof -
  let ?S = "\<lambda>k sc. scenario_candidates w rid request (logisticsRules cfg)
                     (parse_point w (branches_coords request)) substitutes k sc"
  have same: "breakdown c = breakdown c'"
    if d: "distinct (map employee_id substitutes)"
      and c: "c \<in> set (all_candidates w rid request cfg substitutes)"
      and c': "c' \<in> set (all_candidates w rid request cfg substitutes)"
      and eq: "substitute_id c = substitute_id c'"
  proof -
    obtain k sc where k: "c \<in> set (?S k sc)"
      using in_all_candidates [OF c] by blast
    obtain k' sc' where k': "c' \<in> set (?S k' sc')"
      using in_all_candidates [OF c'] by blast
    let ?B = "map breakdown (?S k sc)"
    have B': "map breakdown (?S k' sc') = ?B"
      using breakdown_candidates [OF assms] by blast
    have "map fst ?B = map substitute_id (?S k sc)"
      by (simp add: fst_breakdown comp_def)
    then have "distinct (map fst ?B)"
      using d by (simp only: substitute_id_candidates)
    then have inj: "inj_on fst (set ?B)"
      by (simp only: distinct_map)
    have "breakdown c \<in> set ?B" using k by simp
    moreover have "breakdown c' \<in> set ?B"
      using k' B' by (metis imageI set_map)
    moreover have "fst (breakdown c) = fst (breakdown c')"
      using eq by (simp add: fst_breakdown)
    ultimately show ?thesis
      using inj by (auto dest: inj_onD)
  qed
  show ?thesis
    using breakdown_candidates [OF assms] same by blast
qed

theorem breakdown_across_scenarios_witness:
  "(\<forall>k k' i. date_now example_world k i = date_now example_world k' i)
   \<and> (\<forall>k k' i e. count_recent example_world k i e = count_recent example_world k' i e)
   \<and> map breakdown (scenario_candidates example_world ''r1'' example_request
         documented_logistics_rules (Fin 0, Fin 0) example_pool 0
         (''default'', documented_weights))
     = map breakdown (scenario_candidates example_world ''r1'' example_request
         documented_logistics_rules (Fin 0, Fin 0) example_pool 2
         (''near'', [(''speed'', Fin 0.25), (''logistics'', Fin 0.6), (''load'', Fin 0.15)]))
   \<and> map (load_score \<circ> details_json) (scenario_candidates example_world ''r1'' example_request
         documented_logistics_rules (Fin 0, Fin 0) example_pool 0
         (''default'', documented_weights))
     = [Fin 50, Fin 100, Fin 100]"
proof -
  have clock: "\<forall>k k' i. date_now example_world k i = date_now example_world k' i"
    and counts: "\<forall>k k' i e. count_recent example_world k i e = count_recent example_world k' i e"
    by (simp_all add: example_world_def)
  have loads: "map (load_score \<circ> details_json) (scenario_candidates example_world ''r1''
         example_request documented_logistics_rules (Fin 0, Fin 0) example_pool 0
         (''default'', documented_weights))
     = [Fin 50, Fin 100, Fin 100]"
    by (simp add: scenario_candidates_def example_pool_def enumerate_eq_zip candidate_for_def
        Let_def loadScore_def or_zero_def example_world_sel js_sub_def upt_rec)
  show ?thesis
    using breakdown_across_scenarios [OF clock counts, of "''r1''" example_request
        documented_logistics_rules "(Fin 0, Fin 0)" example_pool 0
        "(''default'', documented_weights)" 2
        "(''near'', [(''speed'', Fin 0.25), (''logistics'', Fin 0.6), (''load'', Fin 0.15)])"]
      clock counts loads
    by blast
qed

subsection \<open>Locations that do not parse\<close>

lemma unparsed_at_origin:
  assumes "coords_match (base_coords s) = None"
  shows "logistics_json (candidate_for w rid request rules bc k sc i s)
       = calculateLogistics w (Fin 0, Fin 0) bc rules"
  using assms by (simp add: candidate_for_def parse_point_def Let_def)

lemma top5_short:
  assumes "length cs \<le> 5"
  shows "set (top5 w cs) = set cs"
  using assms by (simp add: top5_def length_array_sort set_array_sort)

text \<open>
  C6, as the claim states it, fails: a substitute whose location is not a \<open>POINT\<close> text is
  not skipped. The third entry of the pool has such a location, and it is second in the
  list of the default scenario.
\<close>

theorem unparsed_location_is_ranked:
  "coords_match (base_coords (example_pool ! 2)) = None
   \<and> employee_id (example_pool ! 2) = ''e3''
   \<and> map substitute_id
       (top5 example_world (scenario_candidates example_world ''r1'' example_request
          documented_logistics_rules (Fin 0, Fin 0) example_pool 0
          (''default'', documented_weights)))
     = [''e2'', ''e3'', ''e1'']"
  using example_ranked
  by (simp add: example_pool_def coords_match_hex del: coords_match.simps)

text \<open>
  C6, amended. A substitute whose location text does not match the \<open>POINT\<close> pattern does
  not abort the run and is not skipped either: the substitute is scored as if based at
  longitude 0, latitude 0, stays in the pool of every scenario, and is in the list of a
  scenario whenever the pool has at most 5 entries (in a larger pool it competes on its
  score like any other). A run whose store calls succeed on an existing request succeeds
  whatever the location texts are.
\<close>

theorem unparsed_location_scored_at_origin:
  assumes "coords_match (base_coords s) = None"
    and "s \<in> set substitutes"
    and "cands = scenario_candidates w rid request rules bc substitutes k sc"
  shows "(\<exists>c\<in>set cands. substitute_id c = employee_id s
            \<and> logistics_json c = calculateLogistics w (Fin 0, Fin 0) bc rules)
       \<and> length cands = length substitutes
       \<and> (length substitutes \<le> 5 \<longrightarrow>
            (\<exists>c\<in>set (top5 w cands). substitute_id c = employee_id s
               \<and> logistics_json c = calculateLogistics w (Fin 0, Fin 0) bc rules))
       \<and> (method \<noteq> ''OPTIONS'' \<and> \<not> request_error f \<and> \<not> substitutes_error f
            \<and> \<not> insert_error f \<and> substitutes = filter active (substitute_profiles d)
            \<and> single (filter (\<lambda>r. req_id r = rid) (assignment_requests d)) = Some request
          \<longrightarrow> (\<exists>n. snd (serve w f d method rid) = Success n [''default'', ''fast'', ''near'']))"
proof -
  obtain i where i: "i < length substitutes" "substitutes ! i = s"
    using assms(2) by (auto simp: in_set_conv_nth)
  let ?c = "candidate_for w rid request rules bc k sc i s"
  have "(i, s) \<in> set (enumerate 0 substitutes)"
    using i by (auto simp: in_set_enumerate_eq)
  then have mem: "?c \<in> set cands"
    unfolding assms(3) scenario_candidates_def by force
  have c: "substitute_id ?c = employee_id s
      \<and> logistics_json ?c = calculateLogistics w (Fin 0, Fin 0) bc rules"
    using unparsed_at_origin [OF assms(1)] by (simp add: candidate_for_def Let_def)
  have len: "length cands = length substitutes"
    by (simp add: assms(3) scenario_candidates_def)
  have top: "?c \<in> set (top5 w cands)" if "length substitutes \<le> 5"
    using top5_short [of cands] that len mem by simp
  have run: "\<exists>n. snd (serve w f d method rid) = Success n [''default'', ''fast'', ''near'']"
    if "method \<noteq> ''OPTIONS''" "\<not> request_error f" "\<not> substitutes_error f"
      "\<not> insert_error f"
      "single (filter (\<lambda>r. req_id r = rid) (assignment_requests d)) = Some request"
    using that(4) by (subst serve_run [OF that(1,2,3,5) refl refl]) simp
  show ?thesis
    using mem c len top run by blast
qed

theorem unparsed_location_scored_at_origin_witness:
  "coords_match (base_coords (example_pool ! 2)) = None
   \<and> example_pool ! 2 \<in> set example_pool
   \<and> length example_pool \<le> 5
   \<and> (\<exists>c\<in>set (top5 example_world (scenario_candidates example_world ''r1'' example_request
          documented_logistics_rules (Fin 0, Fin 0) example_pool 0
          (''default'', documented_weights))).
        substitute_id c = ''e3''
        \<and> logistics_json c
            = \<lparr> mode = ''car'', eta_hours = Fin 0, cost_est = Fin 500, distance_km = Fin 0 \<rparr>)"
proof -
  have bad: "coords_match (base_coords (example_pool ! 2)) = None"
    by (simp add: example_pool_def coords_match_hex del: coords_match.simps)
  have mem: "example_pool ! 2 \<in> set example_pool"
    by (simp add: example_pool_def)
  have len: "length example_pool \<le> 5"
    by (simp add: example_pool_def)
  have eid: "employee_id (example_pool ! 2) = ''e3''"
    by (simp add: example_pool_def)
  show ?thesis
    using unparsed_location_scored_at_origin [OF bad mem refl, of example_world "''r1''"
        example_request documented_logistics_rules "(Fin 0, Fin 0)" 0
        "(''default'', documented_weights)"]
      bad mem len eid logistics_at_branch
    by simp
qed

subsection \<open>Missing configuration\<close>

text \<open>
  C5. With no \<open>logistics_rules\<close> row in the settings, whether the query returns no such
  row or fails, the handler takes the empty object for the rules, not the documented
  values: every threshold, speed and cost it reads is undefined. The mode is then car, the
  travel time, the cost and the logistics component are NaN, and so is the final score of
  every candidate. The three weight sets do fall back to their documented values.
\<close>

theorem missing_logistics_rules:
  "logisticsRules (load_config (Some [])) = []
   \<and> logisticsRules (load_config None) = []
   \<and> documented_logistics_rules \<noteq> []
   \<and> defaultWeights (load_config (Some []))
       = [(''speed'', Fin 0.4), (''logistics'', Fin 0.35), (''load'', Fin 0.25)]
   \<and> fastWeights (load_config (Some []))
       = [(''speed'', Fin 0.5), (''logistics'', Fin 0.35), (''load'', Fin 0.15)]
   \<and> nearWeights (load_config (Some []))
       = [(''speed'', Fin 0.25), (''logistics'', Fin 0.6), (''load'', Fin 0.15)]
   \<and> mode (calculateLogistics w fromCoords toCoords []) = ''car''
   \<and> eta_hours (calculateLogistics w fromCoords toCoords []) = NaN
   \<and> cost_est (calculateLogistics w fromCoords toCoords []) = NaN
   \<and> logisticsScore (calculateLogistics w fromCoords toCoords []) = NaN
   \<and> score (candidate_for w rid request [] bc k sc i s) = NaN"
  by (simp add: logistics_without_rules logisticsScore_nan score_without_rules load_config_def
      value_or_def documented_logistics_rules_def)

subsection \<open>The list of a scenario\<close>

lemma serve_stores_new:
  assumes "method \<noteq> ''OPTIONS''" "\<not> request_error f" "\<not> substitutes_error f"
    and "single (filter (\<lambda>r. req_id r = rid) (assignment_requests d)) = Some request"
    and "\<not> delete_error f" "\<not> insert_error f"
  shows "filter (\<lambda>c. request_id c = rid) (assignment_candidates (fst (serve w f d method rid)))
       = all_candidates w rid request
           (load_config (if settings_error f then None else Some (settings d)))
           (filter active (substitute_profiles d))"
proof -
  define new where "new = all_candidates w rid request
                (load_config (if settings_error f then None else Some (settings d)))
                (filter active (substitute_profiles d))"
  have tags: "\<forall>c\<in>set new. request_id c = rid"
    unfolding new_def using all_candidates_request by blast
  have run: "serve w f d method rid =
     (if new \<noteq> [] \<and> insert_error f
      then (d \<lparr> assignment_candidates :=
                filter (\<lambda>c. request_id c \<noteq> rid) (assignment_candidates d) \<rparr>, Failure)
      else ((if update_error f then (\<lambda>x. x)
             else assignment_requests_update
                    (map (\<lambda>r. if req_id r = rid then r \<lparr> status := ''matching'' \<rparr> else r)))
              (if new \<noteq> []
               then d \<lparr> assignment_candidates :=
                        filter (\<lambda>c. request_id c \<noteq> rid) (assignment_candidates d) @ new \<rparr>
               else d \<lparr> assignment_candidates :=
                        filter (\<lambda>c. request_id c \<noteq> rid) (assignment_candidates d) \<rparr>),
            Success (length new) [''default'', ''fast'', ''near'']))"
    using assms(5)
    by (subst serve_run [where new = new, OF assms(1,2,3,4) new_def refl]) simp_all
  have "filter (\<lambda>c. request_id c = rid) (assignment_candidates (fst (serve w f d method rid)))
      = new"
  proof (cases "new = []")
    case True
    then show ?thesis
      using assms(6) by (simp add: run filter_empty_conv)
  next
    case False
    then show ?thesis
      using assms(6) filter_same_new [OF tags, of "assignment_candidates d"] by (simp add: run)
  qed
  then show ?thesis
    by (simp only: new_def)
qed

lemma example_nan_scores:
  "map score (scenario_candidates example_world ''r1'' example_request [] (Fin 0, Fin 0)
     example_pool 0 (''default'', documented_weights)) = [NaN, NaN, NaN]"
  by (simp add: scenario_candidates_def example_pool_def enumerate_eq_zip upt_rec
      score_without_rules)

lemma example_engine_order:
  assumes "\<not> list_all (\<lambda>c. is_finite (score c)) cs"
  shows "array_sort example_world cs = cs"
proof -
  have "sort [0..<length cs] = [0..<length cs]"
    by (simp add: sort_key_id_if_sorted)
  then show ?thesis
    using assms by (simp add: array_sort_def example_world_def reorder_def map_nth)
qed

text \<open>
  C2, as the claim states it, fails: a final score can be NaN, and then the list is not in
  descending order of score. With no \<open>logistics_rules\<close> in the settings the rules are the
  empty object and the three candidates of the pool all have the score NaN.
\<close>

theorem nan_scores_not_sorted:
  "map score
     (top5 example_world
        (scenario_candidates example_world ''r1'' example_request (logisticsRules (load_config None))
           (Fin 0, Fin 0) example_pool 0 (''default'', documented_weights)))
     = [NaN, NaN, NaN]
   \<and> \<not> sorted_wrt (\<lambda>a b. js_ge (score a) (score b))
        (top5 example_world
           (scenario_candidates example_world ''r1'' example_request
              (logisticsRules (load_config None)) (Fin 0, Fin 0) example_pool 0
              (''default'', documented_weights)))"
proof -
  let ?cs = "scenario_candidates example_world ''r1'' example_request [] (Fin 0, Fin 0)
               example_pool 0 (''default'', documented_weights)"
  have rules: "logisticsRules (load_config None) = []"
    by (simp add: load_config_def value_or_def)
  have "\<not> list_all (\<lambda>c. is_finite (score c)) ?cs"
  proof
    assume "list_all (\<lambda>c. is_finite (score c)) ?cs"
    then have "list_all is_finite (map score ?cs)"
      by (simp add: list_all_iff)
    then show False
      by (simp only: example_nan_scores) (simp add: is_finite_def)
  qed
  then have "array_sort example_world ?cs = ?cs"
    by (rule example_engine_order)
  moreover have "length ?cs = 3"
    by (simp add: scenario_candidates_def example_pool_def)
  ultimately have top: "top5 example_world ?cs = ?cs"
    by (simp add: top5_def)
  have "sorted_wrt (\<lambda>a b. js_ge (score a) (score b)) ?cs
      = sorted_wrt js_ge (map score ?cs)"
    by (simp add: sorted_wrt_map)
  also have "\<dots> = False"
    by (simp only: example_nan_scores) (simp add: js_ge_def)
  finally show ?thesis
    by (simp only: rules top example_nan_scores) simp
qed

text \<open>
  C2, amended. The list kept for one scenario has at most 5 entries, each the candidate of
  an entry of the pool and none kept twice. When every final score of the scenario is a
  finite number, the list is the first five of the candidates in descending order of
  score, candidates of equal score in the order of the pool. The candidates of a run that
  carry one scenario type are exactly the list of that scenario, and after a run whose
  delete and insert are carried out they are the rows stored for the request with that
  scenario type.
\<close>

theorem ranked_top5:
  assumes "cands = scenario_candidates w rid request rules bc substitutes k scenario"
  shows "length (top5 w cands) \<le> 5
       \<and> mset (top5 w cands) \<subseteq># mset cands
       \<and> (\<forall>c\<in>set (top5 w cands). substitute_id c \<in> employee_id ` set substitutes)
       \<and> map substitute_id cands = map employee_id substitutes
       \<and> ((\<forall>c\<in>set cands. is_finite (score c)) \<longrightarrow>
            top5 w cands = take 5 (sort_by by_score cands)
            \<and> mset (sort_by by_score cands) = mset cands
            \<and> sorted_wrt (\<lambda>a b. js_ge (score a) (score b)) (sort_by by_score cands)
            \<and> (\<forall>v. filter (\<lambda>c. score c = v) (sort_by by_score cands)
                      = filter (\<lambda>c. score c = v) cands)
            \<and> sorted_wrt (\<lambda>a b. js_ge (score a) (score b)) (top5 w cands)
            \<and> (\<forall>v. prefix (filter (\<lambda>c. score c = v) (top5 w cands))
                             (filter (\<lambda>c. score c = v) cands)))
       \<and> ((k, scenario) \<in> set (enumerate 0 (scenarios_of cfg)) \<and> rules = logisticsRules cfg
            \<and> bc = parse_point w (branches_coords request)
          \<longrightarrow> filter (\<lambda>c. scenario_type c = fst scenario)
                (all_candidates w rid request cfg substitutes) = top5 w cands)
       \<and> ((k, scenario) \<in> set (enumerate 0 (scenarios_of cfg)) \<and> rules = logisticsRules cfg
            \<and> bc = parse_point w (branches_coords request)
            \<and> cfg = load_config (if settings_error f then None else Some (settings d))
            \<and> substitutes = filter active (substitute_profiles d)
            \<and> http_method \<noteq> ''OPTIONS'' \<and> \<not> request_error f \<and> \<not> substitutes_error f
            \<and> single (filter (\<lambda>r. req_id r = rid) (assignment_requests d)) = Some request
            \<and> \<not> delete_error f \<and> \<not> insert_error f
          \<longrightarrow> filter (\<lambda>c. scenario_type c = fst scenario)
                (filter (\<lambda>c. request_id c = rid)
                   (assignment_candidates (fst (serve w f d http_method rid)))) = top5 w cands)"
proof -
  have ids: "map substitute_id cands = map employee_id substitutes"
    using assms by (simp add: substitute_id_candidates)
  have mem: "substitute_id c \<in> employee_id ` set substitutes" if "c \<in> set (top5 w cands)" for c
  proof -
    have "c \<in> set cands" using that set_top5 by blast
    then have "substitute_id c \<in> set (map substitute_id cands)" by simp
    then show ?thesis by (simp add: ids)
  qed
  have len: "length (top5 w cands) \<le> 5"
    by (simp add: length_top5)
  have fin: "top5 w cands = take 5 (sort_by by_score cands)
      \<and> mset (sort_by by_score cands) = mset cands
      \<and> sorted_wrt (\<lambda>a b. js_ge (score a) (score b)) (sort_by by_score cands)
      \<and> (\<forall>v. filter (\<lambda>c. score c = v) (sort_by by_score cands)
                = filter (\<lambda>c. score c = v) cands)
      \<and> sorted_wrt (\<lambda>a b. js_ge (score a) (score b)) (top5 w cands)
      \<and> (\<forall>v. prefix (filter (\<lambda>c. score c = v) (top5 w cands))
                       (filter (\<lambda>c. score c = v) cands))"
    if f: "\<forall>c\<in>set cands. is_finite (score c)"
  proof -
    have top: "top5 w cands = take 5 (sort_by by_score cands)"
      by (simp add: top5_def array_sort_finite [OF f])
    have nn: "\<forall>c\<in>set cands. score c \<noteq> NaN"
      using f finite_not_nan by blast
    have srt: "sorted_wrt (\<lambda>a b. js_ge (score a) (score b)) (sort_by by_score cands)"
      using sorted_sort_by [OF nn] .
    have pre: "prefix (filter (\<lambda>c. score c = v) (top5 w cands))
                 (filter (\<lambda>c. score c = v) cands)" for v
      using filter_take_prefix [of "\<lambda>c. score c = v" 5 "sort_by by_score cands"]
      by (simp add: top filter_sort_by)
    show ?thesis
      using top srt pre by (simp add: mset_sort_by filter_sort_by sorted_wrt_take)
  qed
  have blk: "filter (\<lambda>c. scenario_type c = fst scenario)
               (all_candidates w rid request cfg substitutes) = top5 w cands"
    if "(k, scenario) \<in> set (enumerate 0 (scenarios_of cfg))" "rules = logisticsRules cfg"
      "bc = parse_point w (branches_coords request)"
    using filter_all_candidates [OF that(1)] that(2,3) assms by simp
  have rows: "filter (\<lambda>c. scenario_type c = fst scenario)
                (filter (\<lambda>c. request_id c = rid)
                   (assignment_candidates (fst (serve w f d http_method rid)))) = top5 w cands"
    if "(k, scenario) \<in> set (enumerate 0 (scenarios_of cfg))" "rules = logisticsRules cfg"
      "bc = parse_point w (branches_coords request)"
      "cfg = load_config (if settings_error f then None else Some (settings d))"
      "substitutes = filter active (substitute_profiles d)"
      "http_method \<noteq> ''OPTIONS''" "\<not> request_error f" "\<not> substitutes_error f"
      "single (filter (\<lambda>r. req_id r = rid) (assignment_requests d)) = Some request"
      "\<not> delete_error f" "\<not> insert_error f"
    using serve_stores_new [OF that(6,7,8,9,10,11), of w] blk [OF that(1,2,3)] that(4,5)
    by simp
  show ?thesis
    using len mset_top5 [of w cands] mem ids fin blk rows by blast
qed

theorem ranked_top5_witness:
  "map substitute_id
     (top5 example_world
        (scenario_candidates example_world ''r1'' example_request documented_logistics_rules
           (Fin 0, Fin 0) example_pool 0 (''default'', documented_weights)))
     = [''e2'', ''e3'', ''e1'']
   \<and> map score
       (scenario_candidates example_world ''r1'' example_request documented_logistics_rules
          (Fin 0, Fin 0) example_pool 0 (''default'', documented_weights))
     = [Fin 66.625, Fin 79.125, Fin 79.125]
   \<and> sorted_wrt (\<lambda>a b. js_ge (score a) (score b))
       (top5 example_world
          (scenario_candidates example_world ''r1'' example_request
             documented_logistics_rules (Fin 0, Fin 0) example_pool 0
             (''default'', documented_weights)))
   \<and> filter (\<lambda>c. scenario_type c = ''default'')
       (filter (\<lambda>c. request_id c = ''r1'')
          (assignment_candidates
             (fst (serve example_world no_faults example_db ''POST'' ''r1''))))
     = top5 example_world
         (scenario_candidates example_world ''r1'' example_request
            documented_logistics_rules (Fin 0, Fin 0) example_pool 0
            (''default'', documented_weights))"
proof -
  let ?ex = "scenario_candidates example_world ''r1'' example_request
               documented_logistics_rules (Fin 0, Fin 0) example_pool 0
               (''default'', documented_weights)"
  let ?cfg = "load_config (Some (settings example_db))"
  have "map score ?ex = map snd (map (\<lambda>c. (substitute_id c, score c)) ?ex)"
    by (simp add: comp_def)
  then have sc: "map score ?ex = [Fin 66.625, Fin 79.125, Fin 79.125]"
    by (simp only: example_scores) simp
  have num: "\<forall>c\<in>set ?ex. is_finite (score c)"
  proof
    fix c assume "c \<in> set ?ex"
    then have "score c \<in> set (map score ?ex)" by simp
    then show "is_finite (score c)" unfolding sc by (auto simp: is_finite_def)
  qed
  have sel: "(0, (''default'', documented_weights)) \<in> set (enumerate 0 (scenarios_of ?cfg))"
    "documented_logistics_rules = logisticsRules ?cfg"
    "(Fin 0, Fin 0) = parse_point example_world (branches_coords example_request)"
    by (simp_all add: example_config scenarios_of_def enumerate_simps example_request_def
        parse_point_point del: coords_match.simps)
  have env: "?cfg = load_config (if settings_error no_faults then None
                                 else Some (settings example_db))"
    "example_pool = filter active (substitute_profiles example_db)"
    "''POST'' \<noteq> ''OPTIONS''" "\<not> request_error no_faults" "\<not> substitutes_error no_faults"
    "\<not> delete_error no_faults" "\<not> insert_error no_faults"
    by (simp_all add: no_faults_def example_active)
  note main = ranked_top5 [where w = example_world and rid = "''r1''"
      and request = example_request and rules = documented_logistics_rules
      and bc = "(Fin 0, Fin 0)" and substitutes = example_pool and k = 0
      and scenario = "(''default'', documented_weights)" and cfg = ?cfg and f = no_faults
      and d = example_db and http_method = "''POST''", OF refl]
  have srt: "sorted_wrt (\<lambda>a b. js_ge (score a) (score b)) (top5 example_world ?ex)"
    using main num by blast
  have "filter (\<lambda>c. scenario_type c = fst (''default'', documented_weights))
          (filter (\<lambda>c. request_id c = ''r1'')
             (assignment_candidates
                (fst (serve example_world no_faults example_db ''POST'' ''r1''))))
        = top5 example_world ?ex"
    using main sel env example_found by blast
  then have rows: "filter (\<lambda>c. scenario_type c = ''default'')
          (filter (\<lambda>c. request_id c = ''r1'')
             (assignment_candidates
                (fst (serve example_world no_faults example_db ''POST'' ''r1''))))
        = top5 example_world ?ex"
    by (simp only: fst_conv)
  show ?thesis
    using example_ranked sc srt rows by blast
qed

end
